theory Spec2Isabelle
  imports Main
begin

section \<open>Values, structs and the store\<close>

text \<open>
  The package works on three struct types that are always reached through pointers
  (\<open>*CustomErr\<close>, \<open>*AppError\<close>, \<open>*TraceMeta\<close>). Pointers are typed in Go, so the
  store keeps one region per struct type; an address is an index into its region, a
  pointer is an address or \<open>nil\<close> (\<open>None\<close>).
\<close>

type_synonym addr = nat
type_synonym ptr = "addr option"

text \<open>
  Dynamic values of type \<open>interface{}\<close>: what a context stores under a key and what
  an \<open>AppError\<close> carries as \<open>data\<close>. \<open>NilVal\<close> is the nil interface; \<open>TraceMetaPtr p\<close>
  is a value of dynamic type \<open>*TraceMeta\<close> (\<open>p\<close> may be the nil pointer).
\<close>

datatype val =
    NilVal
  | BoolVal bool
  | IntVal int
  | StringVal string
  | MapVal "(string \<times> val) list"
  | TraceMetaPtr ptr

text \<open>
  The built-in interface \<open>error\<close>. A non-nil error value comes from outside the
  package and is modelled by the string its \<open>Error\<close> method returns; the nil interface
  is \<open>None\<close>.
\<close>

datatype error = ErrorValue (message: string)

text \<open>\<open>context.go\<close>: \<open>type TraceMeta struct\<close>. Slices are modelled by their contents.\<close>

record TraceMeta =
  Trace :: "string list"
  Error :: "string list"
  IdentifierMappings :: "(string \<times> val) list"

text \<open>\<open>customError.go\<close>: \<open>type CustomErr struct\<close>.\<close>

record CustomErr =
  Code :: string
  Message :: string
  Retryable :: bool

text \<open>\<open>type AppError struct\<close>; the field \<open>CustomErr\<close> is a pointer.\<close>

record AppError =
  ActualErr :: "error option"
  CustomErr :: ptr
  ErrorCodes :: "string list"
  httpCode :: int
  data :: val

record heap =
  customErrs :: "CustomErr list"
  appErrors :: "AppError list"
  traceMetas :: "TraceMeta list"

text \<open>
  A run-time panic is a value. \<open>NilPointerDereference\<close> is Go's panic on a field access
  through a nil pointer and on a method call on a nil interface. \<open>WildPointer\<close> is not a
  Go outcome: it marks an address outside the store, which Go's memory safety excludes,
  so that no read of the model is left unspecified.
\<close>

datatype panic = NilPointerDereference | WildPointer

type_synonym 'a go = "heap \<Rightarrow> panic + ('a \<times> heap)"

definition go_return :: "'a \<Rightarrow> 'a go" where
  "go_return x h = Inr (x, h)"

definition go_bind :: "'a go \<Rightarrow> ('a \<Rightarrow> 'b go) \<Rightarrow> 'b go" where
  "go_bind m f h = (case m h of Inl p \<Rightarrow> Inl p | Inr (x, h') \<Rightarrow> f x h')"

subsection \<open>Allocation, reads and writes through pointers\<close>

definition new_CustomErr :: "CustomErr \<Rightarrow> ptr go" where
  "new_CustomErr v h = Inr (Some (length (customErrs h)), h\<lparr>customErrs := customErrs h @ [v]\<rparr>)"

definition load_CustomErr :: "ptr \<Rightarrow> CustomErr go" where
  "load_CustomErr p h =
     (case p of
        None \<Rightarrow> Inl NilPointerDereference
      | Some a \<Rightarrow> if a < length (customErrs h) then Inr (customErrs h ! a, h) else Inl WildPointer)"

definition store_CustomErr :: "ptr \<Rightarrow> CustomErr \<Rightarrow> unit go" where
  "store_CustomErr p v h =
     (case p of
        None \<Rightarrow> Inl NilPointerDereference
      | Some a \<Rightarrow> if a < length (customErrs h)
                 then Inr ((), h\<lparr>customErrs := (customErrs h)[a := v]\<rparr>) else Inl WildPointer)"

definition new_AppError :: "AppError \<Rightarrow> ptr go" where
  "new_AppError v h = Inr (Some (length (appErrors h)), h\<lparr>appErrors := appErrors h @ [v]\<rparr>)"

definition load_AppError :: "ptr \<Rightarrow> AppError go" where
  "load_AppError p h =
     (case p of
        None \<Rightarrow> Inl NilPointerDereference
      | Some a \<Rightarrow> if a < length (appErrors h) then Inr (appErrors h ! a, h) else Inl WildPointer)"

definition store_AppError :: "ptr \<Rightarrow> AppError \<Rightarrow> unit go" where
  "store_AppError p v h =
     (case p of
        None \<Rightarrow> Inl NilPointerDereference
      | Some a \<Rightarrow> if a < length (appErrors h)
                 then Inr ((), h\<lparr>appErrors := (appErrors h)[a := v]\<rparr>) else Inl WildPointer)"

definition load_TraceMeta :: "ptr \<Rightarrow> TraceMeta go" where
  "load_TraceMeta p h =
     (case p of
        None \<Rightarrow> Inl NilPointerDereference
      | Some a \<Rightarrow> if a < length (traceMetas h) then Inr (traceMetas h ! a, h) else Inl WildPointer)"

definition store_TraceMeta :: "ptr \<Rightarrow> TraceMeta \<Rightarrow> unit go" where
  "store_TraceMeta p v h =
     (case p of
        None \<Rightarrow> Inl NilPointerDereference
      | Some a \<Rightarrow> if a < length (traceMetas h)
                 then Inr ((), h\<lparr>traceMetas := (traceMetas h)[a := v]\<rparr>) else Inl WildPointer)"

text \<open>\<open>err.Error()\<close> on a value of interface type \<open>error\<close>: a nil interface panics.\<close>

definition error_Error :: "error option \<Rightarrow> string go" where
  "error_Error err =
     (case err of None \<Rightarrow> (\<lambda>h. Inl NilPointerDereference) | Some v \<Rightarrow> go_return (message v))"

section \<open>\<open>context.go\<close>\<close>

text \<open>
  A \<open>context.Context\<close> is the nil interface (\<open>None\<close>) or an immutable carrier of values
  under keys. \<open>ctx.Value(key)\<close> returns the stored value, or the nil interface when
  there is none. The key \<open>c.TraceMetaKey\<close> is declared in the package \<open>constants\<close>,
  which is not part of the sources at hand: it is a parameter of the functions that
  use it.
\<close>

type_synonym 'k Context = "('k \<rightharpoonup> val) option"

definition ctx_Value :: "('k \<rightharpoonup> val) \<Rightarrow> 'k \<Rightarrow> val" where
  "ctx_Value c k = (case c k of None \<Rightarrow> NilVal | Some v \<Rightarrow> v)"

text \<open>
  \<open>AddTraceLog\<close>. The type assertion \<open>trace.(*TraceMeta)\<close> succeeds exactly on a value
  of dynamic type \<open>*TraceMeta\<close>, also when that pointer is nil; the append then
  dereferences it.
\<close>

definition AddTraceLog :: "'k \<Rightarrow> 'k Context \<Rightarrow> string \<Rightarrow> ptr go" where
  "AddTraceLog TraceMetaKey ctx errorMsg =
     (case ctx of
        None \<Rightarrow> go_return None
      | Some c \<Rightarrow>
          (case ctx_Value c TraceMetaKey of
             TraceMetaPtr traceMeta \<Rightarrow>
               go_bind (load_TraceMeta traceMeta) (\<lambda>t.
               go_bind (store_TraceMeta traceMeta (t\<lparr>Error := Error t @ [errorMsg]\<rparr>)) (\<lambda>_.
               go_return traceMeta))
           | _ \<Rightarrow> go_return None))"

section \<open>\<open>customError.go\<close>\<close>

definition GetCustomErr :: "string \<Rightarrow> string \<Rightarrow> bool \<Rightarrow> ptr go" where
  "GetCustomErr code msg retryable =
     new_CustomErr \<lparr>Code = code, Message = msg, Retryable = retryable\<rparr>"

section \<open>The \<open>AppError\<close> methods and constructor\<close>

text \<open>
  Every method has a pointer receiver \<open>e\<close>. The method \<open>Error\<close> is named
  \<open>AppError_Error\<close> here, \<open>Error\<close> being a field of \<open>TraceMeta\<close>.
\<close>

definition AppError_Error :: "ptr \<Rightarrow> string go" where
  "AppError_Error e =
     go_bind (load_AppError e) (\<lambda>a.
       if ActualErr a = None then go_return ''''
       else error_Error (ActualErr a))"

definition GetErr :: "ptr \<Rightarrow> (error option) go" where
  "GetErr e = go_bind (load_AppError e) (\<lambda>a. go_return (ActualErr a))"

definition SetErr :: "ptr \<Rightarrow> error option \<Rightarrow> (error option) go" where
  "SetErr e err =
     go_bind (load_AppError e) (\<lambda>a.
     go_bind (store_AppError e (a\<lparr>ActualErr := err\<rparr>)) (\<lambda>_.
     go_bind (load_AppError e) (\<lambda>a'. go_return (ActualErr a'))))"

definition GetMsg :: "ptr \<Rightarrow> string go" where
  "GetMsg e =
     go_bind (load_AppError e) (\<lambda>a.
     go_bind (load_CustomErr (CustomErr a)) (\<lambda>c. go_return (Message c)))"

definition SetMsg :: "ptr \<Rightarrow> string \<Rightarrow> ptr go" where
  "SetMsg e msg =
     go_bind (load_AppError e) (\<lambda>a.
     go_bind (load_CustomErr (CustomErr a)) (\<lambda>c.
     go_bind (store_CustomErr (CustomErr a) (c\<lparr>Message := msg\<rparr>)) (\<lambda>_.
     go_return e)))"

definition GetHTTPCode :: "ptr \<Rightarrow> int go" where
  "GetHTTPCode e = go_bind (load_AppError e) (\<lambda>a. go_return (httpCode a))"

definition SetHTTPCode :: "ptr \<Rightarrow> int \<Rightarrow> ptr go" where
  "SetHTTPCode e code =
     go_bind (load_AppError e) (\<lambda>a.
     go_bind (store_AppError e (a\<lparr>httpCode := code\<rparr>)) (\<lambda>_.
     go_return e))"

definition GetErrCode :: "ptr \<Rightarrow> string go" where
  "GetErrCode e =
     go_bind (load_AppError e) (\<lambda>a.
     go_bind (load_CustomErr (CustomErr a)) (\<lambda>c. go_return (Code c)))"

definition SetErrCode :: "ptr \<Rightarrow> string \<Rightarrow> ptr go" where
  "SetErrCode e code =
     go_bind (load_AppError e) (\<lambda>a.
     go_bind (load_CustomErr (CustomErr a)) (\<lambda>c.
     go_bind (store_CustomErr (CustomErr a) (c\<lparr>Code := code\<rparr>)) (\<lambda>_.
     go_return e)))"

definition GetErrCodes :: "ptr \<Rightarrow> (string list) go" where
  "GetErrCodes e = go_bind (load_AppError e) (\<lambda>a. go_return (ErrorCodes a))"

definition AddErrCode :: "ptr \<Rightarrow> string \<Rightarrow> ptr go" where
  "AddErrCode e errorCode =
     (if errorCode \<noteq> '''' then
        go_bind (load_AppError e) (\<lambda>a.
        go_bind (load_CustomErr (CustomErr a)) (\<lambda>c.
        go_bind (store_CustomErr (CustomErr a) (c\<lparr>Code := errorCode\<rparr>)) (\<lambda>_.
        go_bind (load_AppError e) (\<lambda>a'.
        go_bind (store_AppError e (a'\<lparr>ErrorCodes := ErrorCodes a' @ [errorCode]\<rparr>)) (\<lambda>_.
        go_return e)))))
      else go_return e)"

definition GetData :: "ptr \<Rightarrow> val go" where
  "GetData e = go_bind (load_AppError e) (\<lambda>a. go_return (data a))"

definition SetData :: "ptr \<Rightarrow> val \<Rightarrow> ptr go" where
  "SetData e d =
     go_bind (load_AppError e) (\<lambda>a.
     go_bind (store_AppError e (a\<lparr>data := d\<rparr>)) (\<lambda>_.
     go_return e))"

text \<open>
  \<open>GetAppErr\<close>, statement by statement. The composite literal leaves \<open>data\<close> at its
  zero value, the nil interface, and \<open>&CustomErr{}\<close> allocates a struct of zero
  values. \<open>meta\<close> is the variadic parameter.
\<close>

definition GetAppErr ::
  "'k \<Rightarrow> 'k Context \<Rightarrow> error option \<Rightarrow> ptr \<Rightarrow> int \<Rightarrow> val list \<Rightarrow> ptr go" where
  "GetAppErr TraceMetaKey ctx err customErr code meta =
     go_bind (error_Error err) (\<lambda>msg.
     go_bind (AddTraceLog TraceMetaKey ctx msg) (\<lambda>_.
     go_bind (new_CustomErr \<lparr>Code = '''', Message = '''', Retryable = False\<rparr>) (\<lambda>own.
     go_bind (new_AppError \<lparr>ActualErr = err, CustomErr = own, ErrorCodes = [],
                            httpCode = code, data = NilVal\<rparr>) (\<lambda>appErr.
     go_bind (if length meta > 0 then
                go_bind (load_AppError appErr) (\<lambda>a.
                store_AppError appErr (a\<lparr>data := meta ! 0\<rparr>))
              else go_return ()) (\<lambda>_.
     go_bind (if customErr \<noteq> None then
                go_bind (load_CustomErr customErr) (\<lambda>d.
                go_bind (load_AppError appErr) (\<lambda>a.
                go_bind (load_CustomErr (CustomErr a)) (\<lambda>c.
                go_bind (store_CustomErr (CustomErr a) (c\<lparr>Code := Code d\<rparr>)) (\<lambda>_.
                go_bind (load_CustomErr customErr) (\<lambda>d.
                go_bind (load_AppError appErr) (\<lambda>a.
                go_bind (load_CustomErr (CustomErr a)) (\<lambda>c.
                go_bind (store_CustomErr (CustomErr a) (c\<lparr>Message := Message d\<rparr>)) (\<lambda>_.
                go_bind (load_CustomErr customErr) (\<lambda>d.
                go_bind (load_AppError appErr) (\<lambda>a.
                store_AppError appErr (a\<lparr>ErrorCodes := ErrorCodes a @ [Code d]\<rparr>)))))))))))
              else go_return ()) (\<lambda>_.
     go_return appErr))))))"

section \<open>Callers: the example program and sequences of calls\<close>

text \<open>
  \<open>ExampleRetryableError\<close> reads the retry flag through the constructed error:
  \<open>isRetryable := appErr.CustomErr.Retryable\<close>.
\<close>

definition isRetryable :: "ptr \<Rightarrow> bool go" where
  "isRetryable appErr =
     go_bind (load_AppError appErr) (\<lambda>a.
     go_bind (load_CustomErr (CustomErr a)) (\<lambda>c. go_return (Retryable c)))"

text \<open>
  A caller's assignment to the fields of a definition it holds: \<open>d.Code = code\<close>,
  \<open>d.Message = msg\<close>, \<open>d.Retryable = retryable\<close>.
\<close>

definition assign_CustomErr :: "ptr \<Rightarrow> string \<Rightarrow> string \<Rightarrow> bool \<Rightarrow> unit go" where
  "assign_CustomErr d code msg retryable =
     go_bind (load_CustomErr d) (\<lambda>c.
     go_bind (store_CustomErr d (c\<lparr>Code := code\<rparr>)) (\<lambda>_.
     go_bind (load_CustomErr d) (\<lambda>c.
     go_bind (store_CustomErr d (c\<lparr>Message := msg\<rparr>)) (\<lambda>_.
     go_bind (load_CustomErr d) (\<lambda>c.
     store_CustomErr d (c\<lparr>Retryable := retryable\<rparr>))))))"

text \<open>The chained call \<open>e.AddErrCode(c1).AddErrCode(c2)...\<close>.\<close>

fun AddErrCodes :: "string list \<Rightarrow> ptr \<Rightarrow> ptr go" where
  "AddErrCodes [] e = go_return e"
| "AddErrCodes (c # cs) e = go_bind (AddErrCode e c) (AddErrCodes cs)"

text \<open>
  One call of a method of \<open>AppError\<close> on a fixed receiver, and a sequence of such
  calls in order; the values the calls return are dropped.
\<close>

datatype op =
    OpError
  | OpGetErr
  | OpSetErr "error option"
  | OpGetMsg
  | OpSetMsg string
  | OpGetHTTPCode
  | OpSetHTTPCode int
  | OpGetErrCode
  | OpSetErrCode string
  | OpGetErrCodes
  | OpAddErrCode string
  | OpGetData
  | OpSetData val

fun apply_op :: "ptr \<Rightarrow> op \<Rightarrow> unit go" where
  "apply_op e OpError = go_bind (AppError_Error e) (\<lambda>_. go_return ())"
| "apply_op e OpGetErr = go_bind (GetErr e) (\<lambda>_. go_return ())"
| "apply_op e (OpSetErr err) = go_bind (SetErr e err) (\<lambda>_. go_return ())"
| "apply_op e OpGetMsg = go_bind (GetMsg e) (\<lambda>_. go_return ())"
| "apply_op e (OpSetMsg msg) = go_bind (SetMsg e msg) (\<lambda>_. go_return ())"
| "apply_op e OpGetHTTPCode = go_bind (GetHTTPCode e) (\<lambda>_. go_return ())"
| "apply_op e (OpSetHTTPCode c) = go_bind (SetHTTPCode e c) (\<lambda>_. go_return ())"
| "apply_op e OpGetErrCode = go_bind (GetErrCode e) (\<lambda>_. go_return ())"
| "apply_op e (OpSetErrCode c) = go_bind (SetErrCode e c) (\<lambda>_. go_return ())"
| "apply_op e OpGetErrCodes = go_bind (GetErrCodes e) (\<lambda>_. go_return ())"
| "apply_op e (OpAddErrCode c) = go_bind (AddErrCode e c) (\<lambda>_. go_return ())"
| "apply_op e OpGetData = go_bind (GetData e) (\<lambda>_. go_return ())"
| "apply_op e (OpSetData d) = go_bind (SetData e d) (\<lambda>_. go_return ())"

fun apply_ops :: "ptr \<Rightarrow> op list \<Rightarrow> unit go" where
  "apply_ops e [] = go_return ()"
| "apply_ops e (x # xs) = go_bind (apply_op e x) (\<lambda>_. apply_ops e xs)"

text \<open>
  The code a sequence of calls sets or adds last, \<open>c\<close> being the code before the
  sequence: \<open>SetErrCode\<close> sets its argument, \<open>AddErrCode\<close> adds a non-empty argument.
\<close>

fun most_recent_code :: "string \<Rightarrow> op list \<Rightarrow> string" where
  "most_recent_code c [] = c"
| "most_recent_code c (OpSetErrCode x # ops) = most_recent_code x ops"
| "most_recent_code c (OpAddErrCode x # ops) = most_recent_code (if x \<noteq> '''' then x else c) ops"
| "most_recent_code c (_ # ops) = most_recent_code c ops"

text \<open>
  Whether the last call of the sequence that changed the primary code also appended
  it to the history; \<open>b\<close> says so for the calls before the sequence.
\<close>

fun last_change_logged :: "bool \<Rightarrow> op list \<Rightarrow> bool" where
  "last_change_logged b [] = b"
| "last_change_logged b (OpSetErrCode x # ops) = last_change_logged False ops"
| "last_change_logged b (OpAddErrCode x # ops) = last_change_logged (x \<noteq> '''' \<or> b) ops"
| "last_change_logged b (_ # ops) = last_change_logged b ops"

text \<open>
  A caller that constructs an error, applies a sequence of calls to it and then reads
  the primary code and the code history.
\<close>

definition construct_then ::
  "'k \<Rightarrow> 'k Context \<Rightarrow> error option \<Rightarrow> ptr \<Rightarrow> int \<Rightarrow> val list \<Rightarrow> op list
     \<Rightarrow> (string \<times> string list) go" where
  "construct_then TraceMetaKey ctx err customErr code meta ops =
     go_bind (GetAppErr TraceMetaKey ctx err customErr code meta) (\<lambda>e.
     go_bind (apply_ops e ops) (\<lambda>_.
     go_bind (GetErrCode e) (\<lambda>c.
     go_bind (GetErrCodes e) (\<lambda>cs. go_return (c, cs)))))"

text \<open>The value a computation returns, the store dropped.\<close>

definition result :: "panic + ('a \<times> heap) \<Rightarrow> panic + 'a" where
  "result r = (case r of Inl p \<Rightarrow> Inl p | Inr (x, h) \<Rightarrow> Inr x)"

section \<open>Well-formed stores\<close>

text \<open>
  \<open>owned e c h\<close>: in the store \<open>h\<close>, \<open>e\<close> is the address of an \<open>AppError\<close> whose field
  \<open>CustomErr\<close> points to the \<open>CustomErr\<close> at address \<open>c\<close>.
\<close>

definition owned :: "addr \<Rightarrow> addr \<Rightarrow> heap \<Rightarrow> bool" where
  "owned e c h =
     (e < length (appErrors h) \<and> CustomErr (appErrors h ! e) = Some c \<and> c < length (customErrs h))"

text \<open>
  \<open>template_ok d h\<close>: the definition handed to the constructor is nil or points to
  a \<open>CustomErr\<close> of the store.
\<close>

definition template_ok :: "ptr \<Rightarrow> heap \<Rightarrow> bool" where
  "template_ok d h = (case d of None \<Rightarrow> True | Some a \<Rightarrow> a < length (customErrs h))"

text \<open>
  \<open>trace_ready k ctx h\<close>: the carrier is nil, or holds under the key \<open>k\<close> something
  that is not a \<open>*TraceMeta\<close>, or holds a non-nil pointer to a \<open>TraceMeta\<close> of the
  store.
\<close>

definition trace_ready :: "'k \<Rightarrow> 'k Context \<Rightarrow> heap \<Rightarrow> bool" where
  "trace_ready k ctx h =
     (case ctx of
        None \<Rightarrow> True
      | Some c \<Rightarrow>
          (case ctx_Value c k of
             TraceMetaPtr p \<Rightarrow> (case p of None \<Rightarrow> False | Some a \<Rightarrow> a < length (traceMetas h))
           | _ \<Rightarrow> True))"

text \<open>
  \<open>in_step e c h\<close>: the code history of the error at \<open>e\<close> is empty or ends with the
  primary code, the field \<open>Code\<close> of the definition at \<open>c\<close>.
\<close>

definition in_step :: "addr \<Rightarrow> addr \<Rightarrow> heap \<Rightarrow> bool" where
  "in_step e c h =
     (ErrorCodes (appErrors h ! e) = [] \<or>
      last (ErrorCodes (appErrors h ! e)) = Code (customErrs h ! c))"

section \<open>Basic facts\<close>

lemmas go_defs =
  go_return_def go_bind_def new_CustomErr_def load_CustomErr_def store_CustomErr_def
  new_AppError_def load_AppError_def store_AppError_def load_TraceMeta_def
  store_TraceMeta_def error_Error_def

lemmas method_defs =
  AppError_Error_def GetErr_def SetErr_def GetMsg_def SetMsg_def GetHTTPCode_def
  SetHTTPCode_def GetErrCode_def SetErrCode_def GetErrCodes_def AddErrCode_def
  GetData_def SetData_def

lemma AddTraceLog_nil_ctx: "AddTraceLog k None msg h = Inr (None, h)"
  by (simp add: AddTraceLog_def go_return_def)

lemma AddTraceLog_other:
  "(\<And>p. ctx_Value c k \<noteq> TraceMetaPtr p) \<Longrightarrow> AddTraceLog k (Some c) msg h = Inr (None, h)"
  by (cases "ctx_Value c k") (auto simp: AddTraceLog_def go_return_def)

lemma AddTraceLog_ptr:
  "ctx_Value c k = TraceMetaPtr (Some a) \<Longrightarrow> a < length (traceMetas h) \<Longrightarrow>
   AddTraceLog k (Some c) msg h =
     Inr (Some a, h\<lparr>traceMetas :=
            (traceMetas h)[a := (traceMetas h ! a)\<lparr>Error := Error (traceMetas h ! a) @ [msg]\<rparr>]\<rparr>)"
  by (simp add: AddTraceLog_def go_defs)

lemma AddTraceLog_nil_ptr:
  "ctx_Value c k = TraceMetaPtr None \<Longrightarrow> AddTraceLog k (Some c) msg h = Inl NilPointerDereference"
  by (simp add: AddTraceLog_def go_defs)

lemma AddTraceLog_frame:
  "AddTraceLog k ctx msg h = Inr (t, h1) \<Longrightarrow>
   customErrs h1 = customErrs h \<and> appErrors h1 = appErrors h"
  by (auto simp: AddTraceLog_def go_defs split: option.splits val.splits if_splits)

lemma AddTraceLog_ready:
  "trace_ready k ctx h \<Longrightarrow> \<exists>t h1. AddTraceLog k ctx msg h = Inr (t, h1)"
  by (auto simp: trace_ready_def AddTraceLog_def go_defs split: option.splits val.splits if_splits)

lemma GetAppErr_no_template:
  "AddTraceLog k ctx (message ev) h = Inr (t, h1) \<Longrightarrow>
   GetAppErr k ctx (Some ev) None code meta h =
     Inr (Some (length (appErrors h1)),
          h1\<lparr>customErrs := customErrs h1 @ [\<lparr>Code = '''', Message = '''', Retryable = False\<rparr>],
             appErrors := appErrors h1 @
               [\<lparr>ActualErr = Some ev, CustomErr = Some (length (customErrs h1)), ErrorCodes = [],
                 httpCode = code, data = (case meta of [] \<Rightarrow> NilVal | v # _ \<Rightarrow> v)\<rparr>]\<rparr>)"
  by (cases meta) (simp_all add: GetAppErr_def go_defs)

lemma GetAppErr_template:
  "AddTraceLog k ctx (message ev) h = Inr (t, h1) \<Longrightarrow> d < length (customErrs h1) \<Longrightarrow>
   GetAppErr k ctx (Some ev) (Some d) code meta h =
     Inr (Some (length (appErrors h1)),
          h1\<lparr>customErrs := customErrs h1 @
               [\<lparr>Code = Code (customErrs h1 ! d), Message = Message (customErrs h1 ! d),
                 Retryable = False\<rparr>],
             appErrors := appErrors h1 @
               [\<lparr>ActualErr = Some ev, CustomErr = Some (length (customErrs h1)),
                 ErrorCodes = [Code (customErrs h1 ! d)],
                 httpCode = code, data = (case meta of [] \<Rightarrow> NilVal | v # _ \<Rightarrow> v)\<rparr>]\<rparr>)"
  by (cases meta) (simp_all add: GetAppErr_def go_defs nth_append)

section \<open>The constructor on an absent underlying failure\<close>

text \<open>
  Claim C1 says that \<open>GetAppErr\<close> returns for every carrier even when the underlying
  failure is nil, the nil failure's message degrading to the empty string. The method
  \<open>Error\<close> of \<open>AppError\<close> guards its call with \<open>e.ActualErr == nil\<close>; the
  constructor calls \<open>err.Error()\<close> with no guard, first of all. On a nil \<open>err\<close> it
  panics, whatever the other arguments and the store are: nothing is appended to the
  trace log and no \<open>AppError\<close> is returned.
\<close>

theorem GetAppErr_nil_underlying_panics:
  "GetAppErr k ctx None customErr code meta h = Inl NilPointerDereference"
  by (simp add: GetAppErr_def go_defs)

section \<open>The trace log\<close>

text \<open>
  Claim C5: \<open>AddTraceLog\<close> on a nil carrier, and on a carrier whose value under the
  key is not of type \<open>*TraceMeta\<close> (the type assertion fails; a missing key gives the
  nil interface, which is such a value), returns the nil pointer without a panic and
  leaves the whole store as it was. Both cases have the same outcome.
\<close>

theorem AddTraceLog_silent_degrade:
  "AddTraceLog k None msg h = Inr (None, h) \<and>
   ((\<forall>p. ctx_Value c k \<noteq> TraceMetaPtr p) \<longrightarrow> AddTraceLog k (Some c) msg h = Inr (None, h))"
  using AddTraceLog_nil_ctx [of k msg h] AddTraceLog_other [of c k msg h] by blast

theorem AddTraceLog_silent_degrade_witness:
  "(\<forall>p. ctx_Value [''traceMeta'' \<mapsto> StringVal ''not a trace''] ''traceMeta'' \<noteq> TraceMetaPtr p) \<and>
   AddTraceLog ''traceMeta'' (Some [''traceMeta'' \<mapsto> StringVal ''not a trace'']) ''db timeout''
     \<lparr>customErrs = [], appErrors = [],
      traceMetas = [\<lparr>Trace = [], Error = [], IdentifierMappings = []\<rparr>]\<rparr>
   = Inr (None, \<lparr>customErrs = [], appErrors = [],
      traceMetas = [\<lparr>Trace = [], Error = [], IdentifierMappings = []\<rparr>]\<rparr>) \<and>
   AddTraceLog ''traceMeta'' (Some Map.empty) ''db timeout''
     \<lparr>customErrs = [], appErrors = [],
      traceMetas = [\<lparr>Trace = [], Error = [], IdentifierMappings = []\<rparr>]\<rparr>
   = Inr (None, \<lparr>customErrs = [], appErrors = [],
      traceMetas = [\<lparr>Trace = [], Error = [], IdentifierMappings = []\<rparr>]\<rparr>)"
  using AddTraceLog_silent_degrade [of "''traceMeta''" "''db timeout''" _ "[''traceMeta'' \<mapsto> StringVal ''not a trace'']"]
    AddTraceLog_silent_degrade [of "''traceMeta''" "''db timeout''" _ "Map.empty"]
  by (simp add: ctx_Value_def)

text \<open>
  Claim C8: on a carrier holding a pointer to a \<open>TraceMeta\<close> of the store, a call of
  \<open>AddTraceLog\<close> returns that pointer and changes the store in one place only: its
  message is added at the end of the field \<open>Error\<close>. Two calls in a row add their
  messages in the order of the calls, so an empty log becomes \<open>[a, b]\<close>.
\<close>

theorem AddTraceLog_appends_in_order:
  assumes "ctx_Value c k = TraceMetaPtr (Some a)" and "a < length (traceMetas h)"
  shows "\<exists>h1 h2.
     AddTraceLog k (Some c) m1 h = Inr (Some a, h1) \<and>
     h1 = h\<lparr>traceMetas := (traceMetas h)[a := (traceMetas h ! a)\<lparr>Error := Error (traceMetas h ! a) @ [m1]\<rparr>]\<rparr> \<and>
     AddTraceLog k (Some c) m2 h1 = Inr (Some a, h2) \<and>
     h2 = h\<lparr>traceMetas := (traceMetas h)[a := (traceMetas h ! a)\<lparr>Error := Error (traceMetas h ! a) @ [m1, m2]\<rparr>]\<rparr>"
proof -
  let ?h1 = "h\<lparr>traceMetas := (traceMetas h)[a := (traceMetas h ! a)\<lparr>Error := Error (traceMetas h ! a) @ [m1]\<rparr>]\<rparr>"
  have 1: "AddTraceLog k (Some c) m1 h = Inr (Some a, ?h1)"
    using assms by (rule AddTraceLog_ptr)
  have "a < length (traceMetas ?h1)" using assms(2) by simp
  from AddTraceLog_ptr [OF assms(1) this, of m2]
  have 2: "AddTraceLog k (Some c) m2 ?h1 =
     Inr (Some a, h\<lparr>traceMetas := (traceMetas h)[a := (traceMetas h ! a)\<lparr>Error := Error (traceMetas h ! a) @ [m1, m2]\<rparr>]\<rparr>)"
    using assms(2) by simp
  from 1 2 show ?thesis by blast
qed

theorem AddTraceLog_appends_in_order_witness:
  "ctx_Value [''traceMeta'' \<mapsto> TraceMetaPtr (Some 0)] ''traceMeta'' = TraceMetaPtr (Some 0) \<and>
   (0::nat) < length (traceMetas \<lparr>customErrs = [], appErrors = [],
      traceMetas = [\<lparr>Trace = [], Error = [], IdentifierMappings = []\<rparr>]\<rparr>) \<and>
   (\<exists>h1 h2.
     AddTraceLog ''traceMeta'' (Some [''traceMeta'' \<mapsto> TraceMetaPtr (Some 0)]) ''a''
       \<lparr>customErrs = [], appErrors = [],
        traceMetas = [\<lparr>Trace = [], Error = [], IdentifierMappings = []\<rparr>]\<rparr> = Inr (Some 0, h1) \<and>
     AddTraceLog ''traceMeta'' (Some [''traceMeta'' \<mapsto> TraceMetaPtr (Some 0)]) ''b'' h1 = Inr (Some 0, h2) \<and>
     h2 = \<lparr>customErrs = [], appErrors = [],
        traceMetas = [\<lparr>Trace = [], Error = [''a'', ''b''], IdentifierMappings = []\<rparr>]\<rparr>)"
  using AddTraceLog_appends_in_order [of "[''traceMeta'' \<mapsto> TraceMetaPtr (Some 0)]" "''traceMeta''" 0
      "\<lparr>customErrs = [], appErrors = [],
        traceMetas = [\<lparr>Trace = [], Error = [], IdentifierMappings = []\<rparr>]\<rparr>" "''a''" "''b''"]
  by (simp add: ctx_Value_def)

lemma GetAppErr_returns:
  assumes "trace_ready k ctx h" and "template_ok d h"
  shows "\<exists>t h0. AddTraceLog k ctx (message ev) h = Inr (t, h0) \<and>
     GetAppErr k ctx (Some ev) d code meta h =
       Inr (Some (length (appErrors h)),
            h0\<lparr>customErrs := customErrs h @
                 [\<lparr>Code = (case d of None \<Rightarrow> '''' | Some a \<Rightarrow> Code (customErrs h ! a)),
                   Message = (case d of None \<Rightarrow> '''' | Some a \<Rightarrow> Message (customErrs h ! a)),
                   Retryable = False\<rparr>],
               appErrors := appErrors h @
                 [\<lparr>ActualErr = Some ev, CustomErr = Some (length (customErrs h)),
                   ErrorCodes = (case d of None \<Rightarrow> [] | Some a \<Rightarrow> [Code (customErrs h ! a)]),
                   httpCode = code, data = (case meta of [] \<Rightarrow> NilVal | v # _ \<Rightarrow> v)\<rparr>]\<rparr>)"
proof -
  from AddTraceLog_ready [OF assms(1)] obtain t h0
    where t: "AddTraceLog k ctx (message ev) h = Inr (t, h0)" by blast
  from AddTraceLog_frame [OF t]
  have fr: "customErrs h0 = customErrs h" "appErrors h0 = appErrors h" by simp_all
  show ?thesis
  proof (cases d)
    case None
    with GetAppErr_no_template [OF t, of code meta] t fr show ?thesis by simp
  next
    case (Some a)
    with assms(2) have "a < length (customErrs h0)" by (simp add: template_ok_def fr)
    from GetAppErr_template [OF t this, of code meta] t fr Some show ?thesis by simp
  qed
qed

lemma owned_reads:
  assumes "owned e c h"
  shows "GetMsg (Some e) h = Inr (Message (customErrs h ! c), h)"
    and "GetErrCode (Some e) h = Inr (Code (customErrs h ! c), h)"
    and "GetErrCodes (Some e) h = Inr (ErrorCodes (appErrors h ! e), h)"
    and "GetData (Some e) h = Inr (data (appErrors h ! e), h)"
    and "isRetryable (Some e) h = Inr (Retryable (customErrs h ! c), h)"
  using assms by (simp_all add: owned_def method_defs isRetryable_def go_defs)

section \<open>The two message surfaces\<close>

text \<open>
  Claim C7: for an \<open>AppError\<close> of the store whose definition pointer is set, \<open>Error\<close>
  returns the empty string when \<open>ActualErr\<close> is nil and the message of \<open>ActualErr\<close>
  otherwise, and \<open>GetMsg\<close> returns the field \<open>Message\<close> of the definition; neither
  changes the store. The two do not depend on each other: replacing the underlying
  failure with \<open>SetErr\<close> leaves what \<open>GetMsg\<close> returns, and replacing the message
  with \<open>SetMsg\<close> leaves what \<open>Error\<close> returns.
\<close>

theorem Error_and_GetMsg_are_distinct:
  assumes "owned e c h"
  shows "AppError_Error (Some e) h =
           Inr ((case ActualErr (appErrors h ! e) of None \<Rightarrow> '''' | Some v \<Rightarrow> message v), h) \<and>
         GetMsg (Some e) h = Inr (Message (customErrs h ! c), h) \<and>
         result (go_bind (SetErr (Some e) err) (\<lambda>_. GetMsg (Some e)) h) = result (GetMsg (Some e) h) \<and>
         result (go_bind (SetMsg (Some e) msg) (\<lambda>_. AppError_Error (Some e)) h) =
           result (AppError_Error (Some e) h)"
  using assms by (auto simp: owned_def method_defs go_defs result_def split: option.splits)

theorem Error_and_GetMsg_are_distinct_witness:
  "owned 0 0 \<lparr>customErrs = [\<lparr>Code = ''ERR_404'', Message = ''not found'', Retryable = False\<rparr>],
      appErrors = [\<lparr>ActualErr = Some (ErrorValue ''sql: no rows''), CustomErr = Some 0,
                    ErrorCodes = [''ERR_404''], httpCode = 404, data = NilVal\<rparr>], traceMetas = []\<rparr> \<and>
   result (AppError_Error (Some 0)
     \<lparr>customErrs = [\<lparr>Code = ''ERR_404'', Message = ''not found'', Retryable = False\<rparr>],
      appErrors = [\<lparr>ActualErr = Some (ErrorValue ''sql: no rows''), CustomErr = Some 0,
                    ErrorCodes = [''ERR_404''], httpCode = 404, data = NilVal\<rparr>], traceMetas = []\<rparr>)
     = Inr ''sql: no rows'' \<and>
   result (GetMsg (Some 0)
     \<lparr>customErrs = [\<lparr>Code = ''ERR_404'', Message = ''not found'', Retryable = False\<rparr>],
      appErrors = [\<lparr>ActualErr = Some (ErrorValue ''sql: no rows''), CustomErr = Some 0,
                    ErrorCodes = [''ERR_404''], httpCode = 404, data = NilVal\<rparr>], traceMetas = []\<rparr>)
     = Inr ''not found'' \<and>
   owned 0 0 \<lparr>customErrs = [\<lparr>Code = ''ERR_404'', Message = ''not found'', Retryable = False\<rparr>],
      appErrors = [\<lparr>ActualErr = None, CustomErr = Some 0,
                    ErrorCodes = [''ERR_404''], httpCode = 404, data = NilVal\<rparr>], traceMetas = []\<rparr> \<and>
   result (AppError_Error (Some 0)
     \<lparr>customErrs = [\<lparr>Code = ''ERR_404'', Message = ''not found'', Retryable = False\<rparr>],
      appErrors = [\<lparr>ActualErr = None, CustomErr = Some 0,
                    ErrorCodes = [''ERR_404''], httpCode = 404, data = NilVal\<rparr>], traceMetas = []\<rparr>)
     = Inr []"
proof -
  have o1: "owned 0 0 \<lparr>customErrs = [\<lparr>Code = ''ERR_404'', Message = ''not found'', Retryable = False\<rparr>],
      appErrors = [\<lparr>ActualErr = Some (ErrorValue ''sql: no rows''), CustomErr = Some 0,
                    ErrorCodes = [''ERR_404''], httpCode = 404, data = NilVal\<rparr>], traceMetas = []\<rparr>"
    by (simp add: owned_def)
  have o2: "owned 0 0 \<lparr>customErrs = [\<lparr>Code = ''ERR_404'', Message = ''not found'', Retryable = False\<rparr>],
      appErrors = [\<lparr>ActualErr = None, CustomErr = Some 0,
                    ErrorCodes = [''ERR_404''], httpCode = 404, data = NilVal\<rparr>], traceMetas = []\<rparr>"
    by (simp add: owned_def)
  from Error_and_GetMsg_are_distinct [OF o1] Error_and_GetMsg_are_distinct [OF o2] o1 o2
  show ?thesis by (simp add: result_def)
qed

section \<open>What the constructor copies\<close>

text \<open>
  Claim C3: the error that \<open>GetAppErr\<close> builds from a definition \<open>d\<close> of the store has
  \<open>CustomErr.Retryable\<close> false whatever \<open>d.Retryable\<close> is, since the constructor
  allocates \<open>&CustomErr{}\<close> and copies \<open>Code\<close> and \<open>Message\<close> only. The read
  \<open>appErr.CustomErr.Retryable\<close> of \<open>ExampleRetryableError\<close> therefore gives false; the
  witness is that example, whose definition is retryable.
\<close>

theorem constructed_Retryable_is_false:
  assumes "trace_ready k ctx h" and "d < length (customErrs h)"
  shows "\<exists>e h1. GetAppErr k ctx (Some ev) (Some d) code meta h = Inr (e, h1) \<and>
           isRetryable e h1 = Inr (False, h1)"
proof -
  from assms(2) have "template_ok (Some d) h" by (simp add: template_ok_def)
  from GetAppErr_returns [OF assms(1) this, of ev code meta]
  obtain t h0 h1 where
    g: "GetAppErr k ctx (Some ev) (Some d) code meta h = Inr (Some (length (appErrors h)), h1)"
    and h1: "h1 = h0\<lparr>customErrs := customErrs h @
                 [\<lparr>Code = Code (customErrs h ! d), Message = Message (customErrs h ! d), Retryable = False\<rparr>],
               appErrors := appErrors h @
                 [\<lparr>ActualErr = Some ev, CustomErr = Some (length (customErrs h)),
                   ErrorCodes = [Code (customErrs h ! d)],
                   httpCode = code, data = (case meta of [] \<Rightarrow> NilVal | v # _ \<Rightarrow> v)\<rparr>]\<rparr>"
    by auto
  have "owned (length (appErrors h)) (length (customErrs h)) h1"
    by (simp add: owned_def h1)
  from owned_reads(5) [OF this] have "isRetryable (Some (length (appErrors h))) h1 = Inr (False, h1)"
    by (simp add: h1)
  with g show ?thesis by blast
qed

theorem constructed_Retryable_is_false_witness:
  "trace_ready ''traceMeta'' (Some Map.empty)
     \<lparr>customErrs = [\<lparr>Code = ''ERR_SVC_1005'', Message = ''service temporarily unavailable'',
                     Retryable = True\<rparr>], appErrors = [], traceMetas = []\<rparr> \<and>
   Retryable (customErrs \<lparr>customErrs = [\<lparr>Code = ''ERR_SVC_1005'',
       Message = ''service temporarily unavailable'', Retryable = True\<rparr>],
       appErrors = [], traceMetas = []\<rparr> ! 0) \<and>
   result (go_bind (GetAppErr ''traceMeta'' (Some Map.empty) (Some (ErrorValue ''service overloaded''))
             (Some 0) 503 []) isRetryable
     \<lparr>customErrs = [\<lparr>Code = ''ERR_SVC_1005'', Message = ''service temporarily unavailable'',
                     Retryable = True\<rparr>], appErrors = [], traceMetas = []\<rparr>) = Inr False"
proof -
  let ?h = "\<lparr>customErrs = [\<lparr>Code = ''ERR_SVC_1005'', Message = ''service temporarily unavailable'',
                     Retryable = True\<rparr>], appErrors = [], traceMetas = []\<rparr>"
  have r: "trace_ready ''traceMeta'' (Some Map.empty) ?h"
    by (simp add: trace_ready_def ctx_Value_def)
  have d: "0 < length (customErrs ?h)" by simp
  from constructed_Retryable_is_false [OF r d, of "ErrorValue ''service overloaded''" 503 "[]"]
  obtain e h1 where
    g: "GetAppErr ''traceMeta'' (Some Map.empty) (Some (ErrorValue ''service overloaded''))
          (Some 0) 503 [] ?h = Inr (e, h1)"
    and i: "isRetryable e h1 = Inr (False, h1)" by blast
  have "result (go_bind (GetAppErr ''traceMeta'' (Some Map.empty)
          (Some (ErrorValue ''service overloaded'')) (Some 0) 503 []) isRetryable ?h) = Inr False"
    by (simp add: go_bind_def g i result_def)
  with r show ?thesis by simp
qed

text \<open>
  Claim C9 says that construction with a nil definition succeeds for every carrier,
  underlying failure and status. With a nil underlying failure it does not: the
  unguarded \<open>err.Error()\<close> that opens \<open>GetAppErr\<close> panics, whatever the carrier,
  the status, the metadata and the store are, so no error with default fields is
  returned. This is the defect of claim C1, met with a nil definition. A carrier
  holding a nil \<open>*TraceMeta\<close> under the key stops construction too: the type
  assertion of \<open>AddTraceLog\<close> succeeds and the append dereferences the nil pointer.
\<close>

theorem absent_definition_construction_panics:
  "GetAppErr k ctx None None code meta h = Inl NilPointerDereference \<and>
   GetAppErr ''traceMeta'' (Some [''traceMeta'' \<mapsto> TraceMetaPtr None])
     (Some (ErrorValue ''boom'')) None 400 []
     \<lparr>customErrs = [], appErrors = [], traceMetas = []\<rparr> = Inl NilPointerDereference"
proof -
  have 1: "GetAppErr k ctx None None code meta h = Inl NilPointerDereference"
    by (simp add: GetAppErr_def go_bind_def error_Error_def)
  have "ctx_Value [''traceMeta'' \<mapsto> TraceMetaPtr None] ''traceMeta'' = TraceMetaPtr None"
    by (simp add: ctx_Value_def)
  from AddTraceLog_nil_ptr [OF this]
  have "AddTraceLog ''traceMeta'' (Some [''traceMeta'' \<mapsto> TraceMetaPtr None]) ''boom''
          \<lparr>customErrs = [], appErrors = [], traceMetas = []\<rparr> = Inl NilPointerDereference" .
  then have 2: "GetAppErr ''traceMeta'' (Some [''traceMeta'' \<mapsto> TraceMetaPtr None])
     (Some (ErrorValue ''boom'')) None 400 []
     \<lparr>customErrs = [], appErrors = [], traceMetas = []\<rparr> = Inl NilPointerDereference"
    by (simp add: GetAppErr_def go_bind_def error_Error_def go_return_def)
  from 1 2 show ?thesis by blast
qed

text \<open>
  On every other input the nil definition is no obstacle: with a present underlying
  failure and a carrier whose trace log can be appended to (\<open>trace_ready\<close>), the
  constructor returns an error whose definition is allocated (\<open>owned\<close>), with the
  empty string for \<open>GetErrCode\<close> and for \<open>GetMsg\<close> and an empty list for
  \<open>GetErrCodes\<close>, whatever the status and the metadata are.
\<close>

lemma absent_definition_defaults:
  assumes "trace_ready k ctx h"
  shows "\<exists>a c h1. GetAppErr k ctx (Some ev) None code meta h = Inr (Some a, h1) \<and>
           owned a c h1 \<and>
           GetErrCode (Some a) h1 = Inr ('''', h1) \<and>
           GetMsg (Some a) h1 = Inr ('''', h1) \<and>
           GetErrCodes (Some a) h1 = Inr ([], h1)"
proof -
  have "template_ok None h" by (simp add: template_ok_def)
  from GetAppErr_returns [OF assms this, of ev code meta]
  obtain t h0 h1 where
    g: "GetAppErr k ctx (Some ev) None code meta h = Inr (Some (length (appErrors h)), h1)"
    and h1: "h1 = h0\<lparr>customErrs := customErrs h @ [\<lparr>Code = '''', Message = '''', Retryable = False\<rparr>],
               appErrors := appErrors h @
                 [\<lparr>ActualErr = Some ev, CustomErr = Some (length (customErrs h)),
                   ErrorCodes = [],
                   httpCode = code, data = (case meta of [] \<Rightarrow> NilVal | v # _ \<Rightarrow> v)\<rparr>]\<rparr>"
    by auto
  have o: "owned (length (appErrors h)) (length (customErrs h)) h1"
    by (simp add: owned_def h1)
  from owned_reads(1-3) [OF o]
  have "GetErrCode (Some (length (appErrors h))) h1 = Inr ('''', h1)"
    and "GetMsg (Some (length (appErrors h))) h1 = Inr ('''', h1)"
    and "GetErrCodes (Some (length (appErrors h))) h1 = Inr ([], h1)"
    by (simp_all add: h1)
  with g o show ?thesis by blast
qed

lemma absent_definition_defaults_example:
  "trace_ready ''traceMeta'' (Some Map.empty) \<lparr>customErrs = [], appErrors = [], traceMetas = []\<rparr> \<and>
   result (go_bind (GetAppErr ''traceMeta'' (Some Map.empty) (Some (ErrorValue ''boom'')) None 400 [])
             GetErrCode \<lparr>customErrs = [], appErrors = [], traceMetas = []\<rparr>) = Inr [] \<and>
   result (go_bind (GetAppErr ''traceMeta'' (Some Map.empty) (Some (ErrorValue ''boom'')) None 400 [])
             GetMsg \<lparr>customErrs = [], appErrors = [], traceMetas = []\<rparr>) = Inr [] \<and>
   result (go_bind (GetAppErr ''traceMeta'' (Some Map.empty) (Some (ErrorValue ''boom'')) None 400 [])
             GetErrCodes \<lparr>customErrs = [], appErrors = [], traceMetas = []\<rparr>) = Inr []"
proof -
  let ?h = "\<lparr>customErrs = [], appErrors = [], traceMetas = []\<rparr>"
  have r: "trace_ready ''traceMeta'' (Some Map.empty) ?h"
    by (simp add: trace_ready_def ctx_Value_def)
  from absent_definition_defaults [OF r, of "ErrorValue ''boom''" 400 "[]"]
  obtain a h1 where
    g: "GetAppErr ''traceMeta'' (Some Map.empty) (Some (ErrorValue ''boom'')) None 400 [] ?h
          = Inr (Some a, h1)"
    and c: "GetErrCode (Some a) h1 = Inr ('''', h1)"
    and m: "GetMsg (Some a) h1 = Inr ('''', h1)"
    and cs: "GetErrCodes (Some a) h1 = Inr ([], h1)" by blast
  show ?thesis using r by (simp add: go_bind_def g c m cs result_def)
qed

text \<open>
  Claim C10: \<open>GetData\<close> on the constructed error returns the nil interface when no
  metadata value was passed and the first value otherwise. Further values are
  dropped silently: the call with \<open>v\<close> followed by more values has the same outcome,
  returned pointer and store, as the call with \<open>v\<close> alone.
\<close>

theorem GetData_first_metadata:
  assumes "trace_ready k ctx h" and "template_ok d h"
  shows "(\<exists>e h1. GetAppErr k ctx (Some ev) d code meta h = Inr (e, h1) \<and>
            GetData e h1 = Inr ((case meta of [] \<Rightarrow> NilVal | v # _ \<Rightarrow> v), h1)) \<and>
         GetAppErr k ctx (Some ev) d code (v # rest) h = GetAppErr k ctx (Some ev) d code [v] h"
proof -
  have ret: "\<exists>e h1. GetAppErr k ctx (Some ev) d code ms h = Inr (e, h1) \<and>
            GetData e h1 = Inr ((case ms of [] \<Rightarrow> NilVal | v # _ \<Rightarrow> v), h1)" for ms
  proof -
    from GetAppErr_returns [OF assms, of ev code ms]
    obtain t h0 h1 where
      g: "GetAppErr k ctx (Some ev) d code ms h = Inr (Some (length (appErrors h)), h1)"
      and h1: "h1 = h0\<lparr>customErrs := customErrs h @
                 [\<lparr>Code = (case d of None \<Rightarrow> '''' | Some a \<Rightarrow> Code (customErrs h ! a)),
                   Message = (case d of None \<Rightarrow> '''' | Some a \<Rightarrow> Message (customErrs h ! a)),
                   Retryable = False\<rparr>],
               appErrors := appErrors h @
                 [\<lparr>ActualErr = Some ev, CustomErr = Some (length (customErrs h)),
                   ErrorCodes = (case d of None \<Rightarrow> [] | Some a \<Rightarrow> [Code (customErrs h ! a)]),
                   httpCode = code, data = (case ms of [] \<Rightarrow> NilVal | v # _ \<Rightarrow> v)\<rparr>]\<rparr>"
      by auto
    have o: "owned (length (appErrors h)) (length (customErrs h)) h1"
      by (simp add: owned_def h1)
    from owned_reads(4) [OF o]
    have "GetData (Some (length (appErrors h))) h1 = Inr ((case ms of [] \<Rightarrow> NilVal | v # _ \<Rightarrow> v), h1)"
      by (simp add: h1)
    with g show ?thesis by blast
  qed
  from GetAppErr_returns [OF assms, of ev code "v # rest"] GetAppErr_returns [OF assms, of ev code "[v]"]
  have "GetAppErr k ctx (Some ev) d code (v # rest) h = GetAppErr k ctx (Some ev) d code [v] h"
    by auto
  with ret [of meta] show ?thesis by blast
qed

theorem GetData_first_metadata_witness:
  "trace_ready ''traceMeta'' None \<lparr>customErrs = [], appErrors = [], traceMetas = []\<rparr> \<and>
   template_ok None \<lparr>customErrs = [], appErrors = [], traceMetas = []\<rparr> \<and>
   result (go_bind (GetAppErr ''traceMeta'' None (Some (ErrorValue ''boom'')) None 422 [])
             GetData \<lparr>customErrs = [], appErrors = [], traceMetas = []\<rparr>) = Inr NilVal \<and>
   result (go_bind (GetAppErr ''traceMeta'' None (Some (ErrorValue ''boom'')) None 422
                      [MapVal [(''field'', StringVal ''email'')], IntVal 7, BoolVal True])
             GetData \<lparr>customErrs = [], appErrors = [], traceMetas = []\<rparr>)
     = Inr (MapVal [(''field'', StringVal ''email'')])"
proof -
  let ?h = "\<lparr>customErrs = [], appErrors = [], traceMetas = []\<rparr>"
  have r: "trace_ready ''traceMeta'' None ?h" by (simp add: trace_ready_def)
  have t: "template_ok None ?h" by (simp add: template_ok_def)
  from GetData_first_metadata [OF r t, of "ErrorValue ''boom''" 422 "[]", THEN conjunct1]
  obtain e0 h0 where
    g0: "GetAppErr ''traceMeta'' None (Some (ErrorValue ''boom'')) None 422 [] ?h = Inr (e0, h0)"
    and d0: "GetData e0 h0 = Inr (NilVal, h0)" by auto
  from GetData_first_metadata [OF r t, of "ErrorValue ''boom''" 422
      "[MapVal [(''field'', StringVal ''email'')], IntVal 7, BoolVal True]", THEN conjunct1]
  obtain e1 h1 where
    g1: "GetAppErr ''traceMeta'' None (Some (ErrorValue ''boom'')) None 422
           [MapVal [(''field'', StringVal ''email'')], IntVal 7, BoolVal True] ?h = Inr (e1, h1)"
    and d1: "GetData e1 h1 = Inr (MapVal [(''field'', StringVal ''email'')], h1)" by auto
  show ?thesis using r t by (simp add: go_bind_def g0 d0 g1 d1 result_def)
qed

text \<open>
  Claim C6: the error built from the definition at \<open>d\<close> owns a definition at another
  address, holding the code and the message \<open>d\<close> had at construction. Assigning new
  values to every field of \<open>d\<close> afterwards changes \<open>d\<close> and leaves what \<open>GetMsg\<close> and
  \<open>GetErrCode\<close> return for the error.
\<close>

theorem definition_is_copied:
  assumes "trace_ready k ctx h" and "d < length (customErrs h)"
  shows "\<exists>a c h1 h2. GetAppErr k ctx (Some ev) (Some d) code meta h = Inr (Some a, h1) \<and>
     owned a c h1 \<and> c \<noteq> d \<and>
     GetMsg (Some a) h1 = Inr (Message (customErrs h ! d), h1) \<and>
     GetErrCode (Some a) h1 = Inr (Code (customErrs h ! d), h1) \<and>
     assign_CustomErr (Some d) code' msg' retryable' h1 = Inr ((), h2) \<and>
     Code (customErrs h2 ! d) = code' \<and> Message (customErrs h2 ! d) = msg' \<and>
     GetMsg (Some a) h2 = Inr (Message (customErrs h ! d), h2) \<and>
     GetErrCode (Some a) h2 = Inr (Code (customErrs h ! d), h2)"
proof -
  let ?e = "length (appErrors h)" and ?c = "length (customErrs h)"
  from assms(2) have "template_ok (Some d) h" by (simp add: template_ok_def)
  from GetAppErr_returns [OF assms(1) this, of ev code meta]
  obtain t h0 h1 where
    g: "GetAppErr k ctx (Some ev) (Some d) code meta h = Inr (Some ?e, h1)"
    and h1: "h1 = h0\<lparr>customErrs := customErrs h @
                 [\<lparr>Code = Code (customErrs h ! d), Message = Message (customErrs h ! d), Retryable = False\<rparr>],
               appErrors := appErrors h @
                 [\<lparr>ActualErr = Some ev, CustomErr = Some (length (customErrs h)),
                   ErrorCodes = [Code (customErrs h ! d)],
                   httpCode = code, data = (case meta of [] \<Rightarrow> NilVal | v # _ \<Rightarrow> v)\<rparr>]\<rparr>"
    by auto
  define h2 where "h2 = h1\<lparr>customErrs := (customErrs h1)
     [d := (customErrs h1 ! d)\<lparr>Code := code', Message := msg', Retryable := retryable'\<rparr>]\<rparr>"
  have o1: "owned ?e ?c h1" by (simp add: owned_def h1)
  have ne: "?c \<noteq> d" using assms(2) by simp
  have a: "assign_CustomErr (Some d) code' msg' retryable' h1 = Inr ((), h2)"
    using assms(2) by (simp add: assign_CustomErr_def go_defs h1 h2_def)
  have o2: "owned ?e ?c h2" using o1 by (simp add: owned_def h2_def)
  have v1: "customErrs h1 ! ?c = \<lparr>Code = Code (customErrs h ! d), Message = Message (customErrs h ! d),
       Retryable = False\<rparr>" by (simp add: h1)
  have v2: "customErrs h2 ! ?c = customErrs h1 ! ?c"
    using ne by (simp add: h2_def)
  have d2: "Code (customErrs h2 ! d) = code' \<and> Message (customErrs h2 ! d) = msg'"
    using assms(2) by (simp add: h2_def h1)
  from owned_reads(1,2) [OF o1] owned_reads(1,2) [OF o2] v1 v2
  have "GetMsg (Some ?e) h1 = Inr (Message (customErrs h ! d), h1)"
    and "GetErrCode (Some ?e) h1 = Inr (Code (customErrs h ! d), h1)"
    and "GetMsg (Some ?e) h2 = Inr (Message (customErrs h ! d), h2)"
    and "GetErrCode (Some ?e) h2 = Inr (Code (customErrs h ! d), h2)"
    by simp_all
  with g o1 ne a d2 show ?thesis by blast
qed

theorem definition_is_copied_witness:
  "trace_ready ''traceMeta'' None
     \<lparr>customErrs = [\<lparr>Code = ''ERR_404'', Message = ''not found'', Retryable = False\<rparr>],
      appErrors = [], traceMetas = []\<rparr> \<and>
   (0::nat) < length (customErrs
     \<lparr>customErrs = [\<lparr>Code = ''ERR_404'', Message = ''not found'', Retryable = False\<rparr>],
      appErrors = [], traceMetas = []\<rparr>) \<and>
   (\<exists>e h1 h2.
      GetAppErr ''traceMeta'' None (Some (ErrorValue ''no rows'')) (Some 0) 404 []
        \<lparr>customErrs = [\<lparr>Code = ''ERR_404'', Message = ''not found'', Retryable = False\<rparr>],
         appErrors = [], traceMetas = []\<rparr> = Inr (e, h1) \<and>
      assign_CustomErr (Some 0) ''CHANGED'' ''changed'' True h1 = Inr ((), h2) \<and>
      Code (customErrs h2 ! 0) = ''CHANGED'' \<and>
      result (GetMsg e h2) = Inr ''not found'' \<and>
      result (GetErrCode e h2) = Inr ''ERR_404'')"
proof -
  let ?h = "\<lparr>customErrs = [\<lparr>Code = ''ERR_404'', Message = ''not found'', Retryable = False\<rparr>],
      appErrors = [], traceMetas = []\<rparr>"
  have r: "trace_ready ''traceMeta'' None ?h" by (simp add: trace_ready_def)
  have d: "(0::nat) < length (customErrs ?h)" by simp
  from definition_is_copied [OF r d, of "ErrorValue ''no rows''" 404 "[]" "''CHANGED''" "''changed''" True]
  obtain a h1 h2 where
    "GetAppErr ''traceMeta'' None (Some (ErrorValue ''no rows'')) (Some 0) 404 [] ?h = Inr (Some a, h1)"
    and "assign_CustomErr (Some 0) ''CHANGED'' ''changed'' True h1 = Inr ((), h2)"
    and "Code (customErrs h2 ! 0) = ''CHANGED''"
    and "GetMsg (Some a) h2 = Inr (''not found'', h2)"
    and "GetErrCode (Some a) h2 = Inr (''ERR_404'', h2)"
    by auto
  then have "\<exists>e h1 h2.
      GetAppErr ''traceMeta'' None (Some (ErrorValue ''no rows'')) (Some 0) 404 [] ?h = Inr (e, h1) \<and>
      assign_CustomErr (Some 0) ''CHANGED'' ''changed'' True h1 = Inr ((), h2) \<and>
      Code (customErrs h2 ! 0) = ''CHANGED'' \<and>
      result (GetMsg e h2) = Inr ''not found'' \<and>
      result (GetErrCode e h2) = Inr ''ERR_404''"
    by (auto simp: result_def)
  with r d show ?thesis by blast
qed

section \<open>Sequences of calls on one error\<close>

lemma apply_op_step:
  assumes "owned e c h"
  shows "\<exists>h'. apply_op (Some e) x h = Inr ((), h') \<and> owned e c h' \<and>
     Code (customErrs h' ! c) = most_recent_code (Code (customErrs h ! c)) [x] \<and>
     ErrorCodes (appErrors h' ! e) =
       ErrorCodes (appErrors h ! e) @
         (case x of OpAddErrCode y \<Rightarrow> if y \<noteq> [] then [y] else [] | _ \<Rightarrow> [])"
  using assms by (cases x) (auto simp: owned_def method_defs go_defs)

lemma apply_op_in_step:
  assumes "owned e c h" and "b \<longrightarrow> in_step e c h" and "apply_op (Some e) x h = Inr ((), h')"
  shows "last_change_logged b [x] \<longrightarrow> in_step e c h'"
  using apply_op_step [OF assms(1), of x] assms(2,3)
  by (cases x) (auto simp: in_step_def)

lemma most_recent_code_Cons:
  "most_recent_code c (x # ops) = most_recent_code (most_recent_code c [x]) ops"
  by (cases x) simp_all

lemma last_change_logged_Cons:
  "last_change_logged b (x # ops) = last_change_logged (last_change_logged b [x]) ops"
  by (cases x) simp_all

lemma apply_ops_run:
  assumes "owned e c h" and "b \<longrightarrow> in_step e c h"
  shows "\<exists>h'. apply_ops (Some e) ops h = Inr ((), h') \<and> owned e c h' \<and>
     Code (customErrs h' ! c) = most_recent_code (Code (customErrs h ! c)) ops \<and>
     (last_change_logged b ops \<longrightarrow> in_step e c h')"
  using assms
proof (induction ops arbitrary: h b)
  case Nil
  then show ?case by (simp add: go_return_def)
next
  case (Cons x ops)
  from apply_op_step [OF Cons.prems(1), of x] obtain h1 where
    s: "apply_op (Some e) x h = Inr ((), h1)" and o: "owned e c h1"
    and c: "Code (customErrs h1 ! c) = most_recent_code (Code (customErrs h ! c)) [x]"
    by blast
  from apply_op_in_step [OF Cons.prems(1) Cons.prems(2) s]
  have i: "last_change_logged b [x] \<longrightarrow> in_step e c h1" .
  from Cons.IH [OF o i] obtain h' where
    r: "apply_ops (Some e) ops h1 = Inr ((), h')" and o': "owned e c h'"
    and c': "Code (customErrs h' ! c) = most_recent_code (Code (customErrs h1 ! c)) ops"
    and i': "last_change_logged (last_change_logged b [x]) ops \<longrightarrow> in_step e c h'"
    by blast
  have "apply_ops (Some e) (x # ops) h = Inr ((), h')"
    by (simp add: go_bind_def s r)
  moreover have "Code (customErrs h' ! c) = most_recent_code (Code (customErrs h ! c)) (x # ops)"
    using c c' most_recent_code_Cons [of "Code (customErrs h ! c)" x ops] by simp
  moreover have "last_change_logged b (x # ops) \<longrightarrow> in_step e c h'"
    using i' last_change_logged_Cons [of b x ops] by simp
  ultimately show ?case using o' by blast
qed

lemma AddErrCode_step:
  assumes "owned e c h"
  shows "\<exists>h'. AddErrCode (Some e) x h = Inr (Some e, h') \<and> owned e c h' \<and>
     Code (customErrs h' ! c) = (if x \<noteq> [] then x else Code (customErrs h ! c)) \<and>
     ErrorCodes (appErrors h' ! e) = ErrorCodes (appErrors h ! e) @ (if x \<noteq> [] then [x] else [])"
  using assms by (auto simp: owned_def AddErrCode_def go_defs)

lemma AddErrCodes_run:
  assumes "owned e c h"
  shows "\<exists>h'. AddErrCodes cs (Some e) h = Inr (Some e, h') \<and> owned e c h' \<and>
     Code (customErrs h' ! c) = last (Code (customErrs h ! c) # filter (\<lambda>x. x \<noteq> []) cs) \<and>
     ErrorCodes (appErrors h' ! e) = ErrorCodes (appErrors h ! e) @ filter (\<lambda>x. x \<noteq> []) cs"
  using assms
proof (induction cs arbitrary: h)
  case Nil
  then show ?case by (simp add: go_return_def)
next
  case (Cons x cs)
  from AddErrCode_step [OF Cons.prems, of x] obtain h1 where
    s: "AddErrCode (Some e) x h = Inr (Some e, h1)" and o: "owned e c h1"
    and c: "Code (customErrs h1 ! c) = (if x \<noteq> [] then x else Code (customErrs h ! c))"
    and l: "ErrorCodes (appErrors h1 ! e) = ErrorCodes (appErrors h ! e) @ (if x \<noteq> [] then [x] else [])"
    by blast
  from Cons.IH [OF o] obtain h' where
    r: "AddErrCodes cs (Some e) h1 = Inr (Some e, h')" and o': "owned e c h'"
    and c': "Code (customErrs h' ! c) = last (Code (customErrs h1 ! c) # filter (\<lambda>x. x \<noteq> []) cs)"
    and l': "ErrorCodes (appErrors h' ! e) = ErrorCodes (appErrors h1 ! e) @ filter (\<lambda>x. x \<noteq> []) cs"
    by blast
  have "AddErrCodes (x # cs) (Some e) h = Inr (Some e, h')"
    by (simp add: go_bind_def s r)
  moreover have "Code (customErrs h' ! c) = last (Code (customErrs h ! c) # filter (\<lambda>x. x \<noteq> []) (x # cs))"
    using c c' by simp
  moreover have "ErrorCodes (appErrors h' ! e) = ErrorCodes (appErrors h ! e) @ filter (\<lambda>x. x \<noteq> []) (x # cs)"
    using l l' by simp
  ultimately show ?case using o' by blast
qed

lemma AddErrCodes_skip_empty:
  "AddErrCodes (xs @ [] # ys) e h = AddErrCodes (xs @ ys) e h"
proof (induction xs arbitrary: e h)
  case Nil
  show ?case by (simp add: AddErrCode_def go_defs)
next
  case (Cons x xs)
  show ?case by (simp add: go_bind_def Cons.IH split: sum.splits)
qed

text \<open>
  Claim C4: on an error with code history \<open>h0\<close>, the calls \<open>AddErrCode c1\<close>, ...,
  \<open>AddErrCode cn\<close> with every code non-empty leave \<open>cn\<close> as the primary code (the
  former code when there was no call) and \<open>h0 @ [c1, ..., cn]\<close> as the history. A call
  \<open>AddErrCode ""\<close> returns the receiver and leaves the whole store as it was, so such
  a call anywhere inside a chain of calls changes nothing of the chain's outcome.
\<close>

theorem AddErrCode_history:
  assumes "owned e c h"
  shows "((\<forall>x\<in>set cs. x \<noteq> '''') \<longrightarrow>
           (\<exists>h'. AddErrCodes cs (Some e) h = Inr (Some e, h') \<and>
              GetErrCode (Some e) h' = Inr ((if cs = [] then Code (customErrs h ! c) else last cs), h') \<and>
              GetErrCodes (Some e) h' = Inr (ErrorCodes (appErrors h ! e) @ cs, h'))) \<and>
         AddErrCode (Some e) '''' h = Inr (Some e, h) \<and>
         AddErrCodes (xs @ '''' # ys) (Some e) h = AddErrCodes (xs @ ys) (Some e) h"
proof -
  have 1: "\<exists>h'. AddErrCodes cs (Some e) h = Inr (Some e, h') \<and>
              GetErrCode (Some e) h' = Inr ((if cs = [] then Code (customErrs h ! c) else last cs), h') \<and>
              GetErrCodes (Some e) h' = Inr (ErrorCodes (appErrors h ! e) @ cs, h')"
    if ne: "\<forall>x\<in>set cs. x \<noteq> ''''"
  proof -
    from ne have f: "filter (\<lambda>x. x \<noteq> []) cs = cs" by (simp add: filter_id_conv)
    from AddErrCodes_run [OF assms, of cs] obtain h' where
      r: "AddErrCodes cs (Some e) h = Inr (Some e, h')" and o: "owned e c h'"
      and c: "Code (customErrs h' ! c) = last (Code (customErrs h ! c) # cs)"
      and l: "ErrorCodes (appErrors h' ! e) = ErrorCodes (appErrors h ! e) @ cs"
      by (auto simp: f)
    from owned_reads(2,3) [OF o] c l r show ?thesis by auto
  qed
  have 2: "AddErrCode (Some e) '''' h = Inr (Some e, h)"
    by (simp add: AddErrCode_def go_return_def)
  from 1 2 AddErrCodes_skip_empty [of xs ys "Some e" h] show ?thesis by blast
qed

theorem AddErrCode_history_witness:
  "owned 0 0 \<lparr>customErrs = [\<lparr>Code = ''ERR_404'', Message = ''not found'', Retryable = False\<rparr>],
      appErrors = [\<lparr>ActualErr = None, CustomErr = Some 0,
                    ErrorCodes = [''ERR_404''], httpCode = 404, data = NilVal\<rparr>], traceMetas = []\<rparr> \<and>
   ''ERR_404_VARIANT'' \<noteq> '''' \<and> ''ERR_LAST'' \<noteq> '''' \<and>
   result (go_bind (AddErrCodes [''ERR_404_VARIANT'', ''ERR_LAST''] (Some 0)) GetErrCode
     \<lparr>customErrs = [\<lparr>Code = ''ERR_404'', Message = ''not found'', Retryable = False\<rparr>],
      appErrors = [\<lparr>ActualErr = None, CustomErr = Some 0,
                    ErrorCodes = [''ERR_404''], httpCode = 404, data = NilVal\<rparr>], traceMetas = []\<rparr>)
     = Inr ''ERR_LAST'' \<and>
   result (go_bind (AddErrCodes [''ERR_404_VARIANT'', ''ERR_LAST''] (Some 0)) GetErrCodes
     \<lparr>customErrs = [\<lparr>Code = ''ERR_404'', Message = ''not found'', Retryable = False\<rparr>],
      appErrors = [\<lparr>ActualErr = None, CustomErr = Some 0,
                    ErrorCodes = [''ERR_404''], httpCode = 404, data = NilVal\<rparr>], traceMetas = []\<rparr>)
     = Inr [''ERR_404'', ''ERR_404_VARIANT'', ''ERR_LAST'']"
proof -
  let ?h = "\<lparr>customErrs = [\<lparr>Code = ''ERR_404'', Message = ''not found'', Retryable = False\<rparr>],
      appErrors = [\<lparr>ActualErr = None, CustomErr = Some 0,
                    ErrorCodes = [''ERR_404''], httpCode = 404, data = NilVal\<rparr>], traceMetas = []\<rparr>"
  have o: "owned 0 0 ?h" by (simp add: owned_def)
  have n: "\<forall>x\<in>set [''ERR_404_VARIANT'', ''ERR_LAST'']. x \<noteq> ''''" by simp
  from AddErrCode_history [OF o, of "[''ERR_404_VARIANT'', ''ERR_LAST'']", THEN conjunct1] n
  obtain h' where
    r: "AddErrCodes [''ERR_404_VARIANT'', ''ERR_LAST''] (Some 0) ?h = Inr (Some 0, h')"
    and c: "GetErrCode (Some 0) h' = Inr (''ERR_LAST'', h')"
    and l: "GetErrCodes (Some 0) h' = Inr ([''ERR_404'', ''ERR_404_VARIANT'', ''ERR_LAST''], h')"
    by auto
  have "result (go_bind (AddErrCodes [''ERR_404_VARIANT'', ''ERR_LAST''] (Some 0)) GetErrCode ?h)
          = Inr ''ERR_LAST''"
    by (simp only: go_bind_def r c result_def sum.case prod.case)
  moreover
  have "result (go_bind (AddErrCodes [''ERR_404_VARIANT'', ''ERR_LAST''] (Some 0)) GetErrCodes ?h)
          = Inr [''ERR_404'', ''ERR_404_VARIANT'', ''ERR_LAST'']"
    by (simp only: go_bind_def r l result_def sum.case prod.case)
  ultimately show ?thesis using o n by blast
qed

text \<open>
  Claim C2, as amended. After construction and any sequence of method calls, the
  primary code is the code most recently set by \<open>SetErrCode\<close> or added, non-empty, by
  \<open>AddErrCode\<close>, and the code taken from the definition (the empty string for a nil
  definition) when there was no such call. The history is empty or ends with the
  primary code whenever no \<open>SetErrCode\<close> was called after the last \<open>AddErrCode\<close> of
  a non-empty code, or after construction if there was none: \<open>SetErrCode\<close> replaces
  the primary code and leaves the history alone, as its comment says.
\<close>

theorem primary_code_follows_calls:
  assumes "trace_ready k ctx h" and "template_ok d h"
  shows "\<exists>c cs h2. construct_then k ctx (Some ev) d code meta ops h = Inr ((c, cs), h2) \<and>
     c = most_recent_code (case d of None \<Rightarrow> '''' | Some a \<Rightarrow> Code (customErrs h ! a)) ops \<and>
     (last_change_logged True ops \<longrightarrow> cs = [] \<or> last cs = c)"
proof -
  let ?e = "length (appErrors h)" and ?c = "length (customErrs h)"
  from GetAppErr_returns [OF assms, of ev code meta]
  obtain t h0 h1 where
    g: "GetAppErr k ctx (Some ev) d code meta h = Inr (Some ?e, h1)"
    and h1: "h1 = h0\<lparr>customErrs := customErrs h @
                 [\<lparr>Code = (case d of None \<Rightarrow> '''' | Some a \<Rightarrow> Code (customErrs h ! a)),
                   Message = (case d of None \<Rightarrow> '''' | Some a \<Rightarrow> Message (customErrs h ! a)),
                   Retryable = False\<rparr>],
               appErrors := appErrors h @
                 [\<lparr>ActualErr = Some ev, CustomErr = Some (length (customErrs h)),
                   ErrorCodes = (case d of None \<Rightarrow> [] | Some a \<Rightarrow> [Code (customErrs h ! a)]),
                   httpCode = code, data = (case meta of [] \<Rightarrow> NilVal | v # _ \<Rightarrow> v)\<rparr>]\<rparr>"
    by auto
  have o: "owned ?e ?c h1" by (simp add: owned_def h1)
  have c0: "Code (customErrs h1 ! ?c) = (case d of None \<Rightarrow> '''' | Some a \<Rightarrow> Code (customErrs h ! a))"
    by (simp add: h1)
  have i: "True \<longrightarrow> in_step ?e ?c h1"
    by (cases d) (simp_all add: in_step_def h1)
  from apply_ops_run [OF o i, of ops] obtain h2 where
    r: "apply_ops (Some ?e) ops h1 = Inr ((), h2)" and o2: "owned ?e ?c h2"
    and c2: "Code (customErrs h2 ! ?c) = most_recent_code (Code (customErrs h1 ! ?c)) ops"
    and i2: "last_change_logged True ops \<longrightarrow> in_step ?e ?c h2"
    by blast
  from owned_reads(2,3) [OF o2]
  have "construct_then k ctx (Some ev) d code meta ops h =
          Inr ((Code (customErrs h2 ! ?c), ErrorCodes (appErrors h2 ! ?e)), h2)"
    by (simp add: construct_then_def go_bind_def go_return_def g r)
  with c2 c0 i2 show ?thesis by (auto simp: in_step_def)
qed

theorem primary_code_follows_calls_witness:
  "trace_ready ''traceMeta'' None
     \<lparr>customErrs = [\<lparr>Code = ''ERR_404'', Message = ''not found'', Retryable = False\<rparr>],
      appErrors = [], traceMetas = []\<rparr> \<and>
   template_ok (Some 0)
     \<lparr>customErrs = [\<lparr>Code = ''ERR_404'', Message = ''not found'', Retryable = False\<rparr>],
      appErrors = [], traceMetas = []\<rparr> \<and>
   last_change_logged True [OpSetErrCode ''ERR_OTHER'', OpSetMsg ''gone'', OpAddErrCode ''ERR_410'',
      OpAddErrCode '''', OpGetErrCodes] \<and>
   (\<exists>cs. result (construct_then ''traceMeta'' None (Some (ErrorValue ''no rows'')) (Some 0) 404 []
             [OpSetErrCode ''ERR_OTHER'', OpSetMsg ''gone'', OpAddErrCode ''ERR_410'',
              OpAddErrCode '''', OpGetErrCodes]
     \<lparr>customErrs = [\<lparr>Code = ''ERR_404'', Message = ''not found'', Retryable = False\<rparr>],
      appErrors = [], traceMetas = []\<rparr>) = Inr (''ERR_410'', cs) \<and> (cs = [] \<or> last cs = ''ERR_410''))"
proof -
  let ?h = "\<lparr>customErrs = [\<lparr>Code = ''ERR_404'', Message = ''not found'', Retryable = False\<rparr>],
      appErrors = [], traceMetas = []\<rparr>"
  let ?ops = "[OpSetErrCode ''ERR_OTHER'', OpSetMsg ''gone'', OpAddErrCode ''ERR_410'',
      OpAddErrCode '''', OpGetErrCodes]"
  have r: "trace_ready ''traceMeta'' None ?h" by (simp add: trace_ready_def)
  have t: "template_ok (Some 0) ?h" by (simp add: template_ok_def)
  have l: "last_change_logged True ?ops" by simp
  from primary_code_follows_calls [OF r t, of "ErrorValue ''no rows''" 404 "[]" ?ops] l
  obtain cs h2 where
    "construct_then ''traceMeta'' None (Some (ErrorValue ''no rows'')) (Some 0) 404 [] ?ops ?h
       = Inr ((''ERR_410'', cs), h2)" and "cs = [] \<or> last cs = ''ERR_410''"
    by auto
  then have "\<exists>cs. result (construct_then ''traceMeta'' None (Some (ErrorValue ''no rows'')) (Some 0)
       404 [] ?ops ?h) = Inr (''ERR_410'', cs) \<and> (cs = [] \<or> last cs = ''ERR_410'')"
    by (simp add: result_def)
  with r t l show ?thesis by blast
qed

text \<open>
  Claim C2 as stated fails: an error built from a definition with code \<open>ERR_404\<close>,
  then \<open>SetErrCode "ERR_OTHER"\<close>, has the primary code \<open>ERR_OTHER\<close> and the non-empty
  history \<open>[ERR_404]\<close>, whose last element is not the primary code.
\<close>

theorem history_lags_after_SetErrCode_counterexample:
  "result (construct_then ''traceMeta'' None (Some (ErrorValue ''no rows'')) (Some 0) 404 []
             [OpSetErrCode ''ERR_OTHER'']
     \<lparr>customErrs = [\<lparr>Code = ''ERR_404'', Message = ''not found'', Retryable = False\<rparr>],
      appErrors = [], traceMetas = []\<rparr>) = Inr (''ERR_OTHER'', [''ERR_404'']) \<and>
   [''ERR_404''] \<noteq> [] \<and> last [''ERR_404''] \<noteq> ''ERR_OTHER''"
proof -
  let ?h = "\<lparr>customErrs = [\<lparr>Code = ''ERR_404'', Message = ''not found'', Retryable = False\<rparr>],
      appErrors = [], traceMetas = []\<rparr>"
  have t: "AddTraceLog ''traceMeta'' None (message (ErrorValue ''no rows'')) ?h = Inr (None, ?h)"
    by (rule AddTraceLog_nil_ctx)
  have d: "0 < length (customErrs ?h)" by simp
  have g: "GetAppErr ''traceMeta'' None (Some (ErrorValue ''no rows'')) (Some 0) 404 [] ?h =
     Inr (Some 0,
       \<lparr>customErrs = [\<lparr>Code = ''ERR_404'', Message = ''not found'', Retryable = False\<rparr>,
                      \<lparr>Code = ''ERR_404'', Message = ''not found'', Retryable = False\<rparr>],
        appErrors = [\<lparr>ActualErr = Some (ErrorValue ''no rows''), CustomErr = Some 1,
                      ErrorCodes = [''ERR_404''], httpCode = 404, data = NilVal\<rparr>],
        traceMetas = []\<rparr>)"
    using GetAppErr_template [OF t d, of 404 "[]"] by simp
  have s: "apply_ops (Some 0) [OpSetErrCode ''ERR_OTHER'']
       \<lparr>customErrs = [\<lparr>Code = ''ERR_404'', Message = ''not found'', Retryable = False\<rparr>,
                      \<lparr>Code = ''ERR_404'', Message = ''not found'', Retryable = False\<rparr>],
        appErrors = [\<lparr>ActualErr = Some (ErrorValue ''no rows''), CustomErr = Some 1,
                      ErrorCodes = [''ERR_404''], httpCode = 404, data = NilVal\<rparr>],
        traceMetas = []\<rparr> =
     Inr ((),
       \<lparr>customErrs = [\<lparr>Code = ''ERR_404'', Message = ''not found'', Retryable = False\<rparr>,
                      \<lparr>Code = ''ERR_OTHER'', Message = ''not found'', Retryable = False\<rparr>],
        appErrors = [\<lparr>ActualErr = Some (ErrorValue ''no rows''), CustomErr = Some 1,
                      ErrorCodes = [''ERR_404''], httpCode = 404, data = NilVal\<rparr>],
        traceMetas = []\<rparr>)"
    by (simp add: SetErrCode_def go_defs)
  have o: "owned 0 1
       \<lparr>customErrs = [\<lparr>Code = ''ERR_404'', Message = ''not found'', Retryable = False\<rparr>,
                      \<lparr>Code = ''ERR_OTHER'', Message = ''not found'', Retryable = False\<rparr>],
        appErrors = [\<lparr>ActualErr = Some (ErrorValue ''no rows''), CustomErr = Some 1,
                      ErrorCodes = [''ERR_404''], httpCode = 404, data = NilVal\<rparr>],
        traceMetas = []\<rparr>"
    by (simp add: owned_def)
  note rd = owned_reads(2,3) [OF o]
  have "construct_then ''traceMeta'' None (Some (ErrorValue ''no rows'')) (Some 0) 404 []
             [OpSetErrCode ''ERR_OTHER''] ?h =
     Inr ((''ERR_OTHER'', [''ERR_404'']),
       \<lparr>customErrs = [\<lparr>Code = ''ERR_404'', Message = ''not found'', Retryable = False\<rparr>,
                      \<lparr>Code = ''ERR_OTHER'', Message = ''not found'', Retryable = False\<rparr>],
        appErrors = [\<lparr>ActualErr = Some (ErrorValue ''no rows''), CustomErr = Some 1,
                      ErrorCodes = [''ERR_404''], httpCode = 404, data = NilVal\<rparr>],
        traceMetas = []\<rparr>)"
    by (simp only: construct_then_def go_bind_def go_return_def g s rd sum.case prod.case) simp
  then show ?thesis by (simp add: result_def)
qed

end
